theory Spec2Isabelle
  imports Main "HOL-Library.Word"
begin

section \<open>Time\<close>

text \<open>
  Instants are nanoseconds relative to the Unix epoch, unbounded as far as the core is
  concerned. A \<open>time.Duration\<close> is a signed 64-bit count of nanoseconds: subtraction of
  durations wraps, and comparisons read the word as two's complement (\<open>sint\<close>).
\<close>

type_synonym Time = int
type_synonym Duration = "64 word"

definition maxDuration :: int where
  "maxDuration = 2 ^ 63 - 1"

definition minDuration :: int where
  "minDuration = - (2 ^ 63)"

text \<open>The zero \<open>time.Time\<close>: January 1 of year 1, 00:00 UTC.\<close>

definition zeroTime :: Time where
  "zeroTime = - 62135596800000000000"

text \<open>
  \<open>Time.Sub\<close> of the standard library: the difference of two instants, saturated at the
  least and the greatest duration.
\<close>

definition Sub :: "Time \<Rightarrow> Time \<Rightarrow> Duration" where
  "Sub t u =
     (let d = t - u
      in if maxDuration < d then word_of_int maxDuration
         else if d < minDuration then word_of_int minDuration
         else word_of_int d)"

section \<open>Entities\<close>

text \<open>
  What the core reads of a Kubernetes object: its key, its generation, its conditions and
  its Konnect status. The status accessor may return nil, hence the option.
  Generations are \<open>int64\<close>.
\<close>

record Condition =
  condType :: string
  condStatus :: string
  condObservedGeneration :: "64 word"
  condLastTransitionTime :: Time
  condReason :: string
  condMessage :: string

record KonnectEntityStatus =
  statusID :: string
  statusServerURL :: string
  statusOrgID :: string

record Object =
  objNamespace :: string
  objName :: string
  objGeneration :: "64 word"
  objConditions :: "Condition list"
  objKonnectStatus :: "KonnectEntityStatus option"

text \<open>
  The type switch of the three operations distinguishes five entity types; any other
  dynamic type, given by its name, takes the default branch. The constraint on the type
  parameter admits the five types only, so that no call of the program has a handle of
  another type: \<open>OtherType\<close> is there for the default branches alone.
\<close>

datatype Kind =
    KonnectControlPlane
  | KongService
  | KongRoute
  | KongConsumer
  | KongConsumerGroup
  | OtherType string

text \<open>
  An entity handle \<open>*T\<close> is a typed address. Objects live in a store, so that an adapter
  which mutates the object behind the handle is seen by the code that runs after it.
  \<open>Create\<close>, \<open>Update\<close> and \<open>Delete\<close> are given a handle that is not nil; only the
  error normalizer tests its handle for nil, and takes the object behind it as an option.
\<close>

record Ptr =
  ptrKind :: Kind
  ptrAddr :: nat

type_synonym Heap = "nat \<Rightarrow> Object"

type_synonym ObjectKey = "string \<times> string"

definition ObjectKeyFromObject :: "Object \<Rightarrow> ObjectKey" where
  "ObjectKeyFromObject obj = (objNamespace obj, objName obj)"

definition ConditionTrue :: string where
  "ConditionTrue = ''True''"

definition KonnectEntityProgrammedConditionType :: string where
  "KonnectEntityProgrammedConditionType = ''Programmed''"

definition KonnectEntityProgrammedReasonProgrammed :: string where
  "KonnectEntityProgrammedReasonProgrammed = ''Programmed''"

definition KonnectEntityProgrammedReasonKonnectAPIOpFailed :: string where
  "KonnectEntityProgrammedReasonKonnectAPIOpFailed = ''KonnectAPIOpFailed''"

definition zeroCondition :: Condition where
  "zeroCondition =
     \<lparr>condType = [], condStatus = [], condObservedGeneration = 0,
      condLastTransitionTime = zeroTime, condReason = [], condMessage = []\<rparr>"

text \<open>
  Modelled from the spec: \<open>k8sutils.GetCondition\<close> is not among the sources. The spec
  gives it as \<open>getCondition(type) -> (Condition, found)\<close> over a collection with at most
  one condition per type; when none is found the condition returned is the zero value.
\<close>

fun GetCondition :: "string \<Rightarrow> Condition list \<Rightarrow> Condition \<times> bool" where
  "GetCondition cType [] = (zeroCondition, False)"
| "GetCondition cType (c # cs) =
     (if condType c = cType then (c, True) else GetCondition cType cs)"

section \<open>Operations and errors\<close>

text \<open>\<open>Op\<close> is a string type with three named values.\<close>

type_synonym Op = string

definition CreateOp :: Op where
  "CreateOp = ''create''"

definition UpdateOp :: Op where
  "UpdateOp = ''update''"

definition DeleteOp :: Op where
  "DeleteOp = ''delete''"

text \<open>
  An error is either one that an adapter made itself, known by its message, or the result
  of \<open>fmt.Errorf\<close>, kept as the format with its operands. An entity operand is the
  handle's type together with the object it points to when the error is made (\<open>None\<close>
  for a nil handle).
\<close>

datatype Arg =
    AOp Op
  | AKey ObjectKey
  | APtr Kind "Object option"
  | AErr Error
and Error =
    ErrorString string
  | Errorf string "Arg list"

text \<open>
  The verbs of a format, in order: the character after each percent sign, a doubled
  percent sign being no verb. The core's formats use plain one-letter verbs only.
\<close>

fun verbs :: "string \<Rightarrow> char list" where
  "verbs (c # d # cs) =
     (if c = CHR ''%'' then (if d = CHR ''%'' then verbs cs else d # verbs cs)
      else verbs (d # cs))"
| "verbs cs = []"

text \<open>
  \<open>errors.Unwrap\<close>: an error made by \<open>fmt.Errorf\<close> wraps the error operand of its
  \<open>%w\<close> verb; any other error wraps nothing. No format of the core has more than one
  \<open>%w\<close>.
\<close>

fun wrapped :: "(char \<times> Arg) list \<Rightarrow> Error option" where
  "wrapped [] = None"
| "wrapped ((v, AErr e) # vas) = (if v = CHR ''w'' then Some e else wrapped vas)"
| "wrapped (va # vas) = wrapped vas"

fun Unwrap :: "Error \<Rightarrow> Error option" where
  "Unwrap (ErrorString s) = None"
| "Unwrap (Errorf f as) = wrapped (zip (verbs f) as)"

text \<open>
  The name \<open>%T\<close> prints for a handle: the pointer type, with the package's own name.
\<close>

fun typeName :: "Kind \<Rightarrow> string" where
  "typeName KonnectControlPlane = ''*v1alpha1.KonnectControlPlane''"
| "typeName KongService = ''*v1alpha1.KongService''"
| "typeName KongRoute = ''*v1alpha1.KongRoute''"
| "typeName KongConsumer = ''*v1.KongConsumer''"
| "typeName KongConsumerGroup = ''*v1beta1.KongConsumerGroup''"
| "typeName (OtherType n) = n"

text \<open>
  \<open>Sprintf\<close> fills the verbs of a format from the operands, left to right; \<open>r\<close> renders
  one operand under one verb. A doubled percent sign prints one; a verb without an
  operand and a percent sign at the very end print the library's markers. Operands left
  over, which the library would report, are dropped: no format of the core leaves any.
\<close>

fun Sprintf :: "(char \<Rightarrow> Arg \<Rightarrow> string) \<Rightarrow> string \<Rightarrow> Arg list \<Rightarrow> string" where
  "Sprintf r (c # d # cs) as =
     (if c = CHR ''%'' then
        (if d = CHR ''%'' then CHR ''%'' # Sprintf r cs as
         else
           (case as of
              [] \<Rightarrow> ''%!'' @ [d] @ ''(MISSING)'' @ Sprintf r cs []
            | a # as' \<Rightarrow> r d a @ Sprintf r cs as'))
      else c # Sprintf r (d # cs) as)"
| "Sprintf r [c] as = (if c = CHR ''%'' then ''%!(NOVERB)'' else [c])"
| "Sprintf r [] as = []"

lemma Sprintf_cong [fundef_cong]:
  "f = f' \<Longrightarrow> as = as' \<Longrightarrow> (\<And>v a. a \<in> set as' \<Longrightarrow> r v a = r' v a)
   \<Longrightarrow> Sprintf r f as = Sprintf r' f' as'"
  by (induction r f as arbitrary: f' as' rule: Sprintf.induct) (auto split: list.splits)

text \<open>
  The message of an error. What \<open>%q\<close> prints for an entity is the reflective dump of a
  Kubernetes structure, which lies outside the core: it is the parameter \<open>q\<close>. The
  other renderings are those the core's formats use: \<open>%s\<close> of an operation is the
  operation, \<open>%s\<close> of a key is \<open>namespace/name\<close>, \<open>%T\<close> is the operand's type and
  \<open>%w\<close> the message of the wrapped error. A pairing the core never makes prints as
  a bad verb.
\<close>

fun Error_msg :: "(Kind \<Rightarrow> Object option \<Rightarrow> string) \<Rightarrow> Error \<Rightarrow> string" where
  "Error_msg q (ErrorString s) = s"
| "Error_msg q (Errorf f as) =
     Sprintf
       (\<lambda>v a. case a of
            AOp op \<Rightarrow> (if v = CHR ''s'' then op else ''%!'' @ [v] @ ''(BADVERB)'')
          | AKey k \<Rightarrow>
              (if v = CHR ''s'' then fst k @ ''/'' @ snd k
               else if v = CHR ''T'' then ''types.NamespacedName''
               else ''%!'' @ [v] @ ''(BADVERB)'')
          | APtr k obj \<Rightarrow>
              (if v = CHR ''T'' then typeName k
               else if v = CHR ''q'' then q k obj
               else ''%!'' @ [v] @ ''(BADVERB)'')
          | AErr e \<Rightarrow>
              (if v = CHR ''w'' then Error_msg q e else ''%!'' @ [v] @ ''(BADVERB)''))
       f as"

section \<open>The world of one call\<close>

text \<open>
  A call runs against the store of objects and the clock, writes to the logger, and may
  call adapters. The list \<open>invoked\<close> observes which adapter was called on which handle;
  the code has no such list, it is there to state which calls happened.
\<close>

datatype LogEntry =
    OpComplete Op Duration Kind string
  | NoNeedForUpdate Ptr Time Duration Duration Time

record World =
  heap :: Heap
  clock :: Time
  logs :: "LogEntry list"
  invoked :: "(string \<times> Ptr) list"

text \<open>
  An adapter receives the handle; it may change the objects of the store and takes time;
  it returns an error or nil.
\<close>

type_synonym Adapter = "Ptr \<Rightarrow> Heap \<times> Time \<Rightarrow> (Heap \<times> Time) \<times> Error option"

text \<open>
  What the surrounding system supplies: the fifteen adapters, and what the entity
  status's \<open>GetKonnectID\<close> does on a nil status (\<open>None\<close> when it panics).
\<close>

record Externals =
  createControlPlane :: Adapter
  createService :: Adapter
  createRoute :: Adapter
  createConsumer :: Adapter
  createConsumerGroup :: Adapter
  deleteControlPlane :: Adapter
  deleteService :: Adapter
  deleteRoute :: Adapter
  deleteConsumer :: Adapter
  deleteConsumerGroup :: Adapter
  updateControlPlane :: Adapter
  updateService :: Adapter
  updateRoute :: Adapter
  updateConsumer :: Adapter
  updateConsumerGroup :: Adapter
  nilStatusKonnectID :: "string option"

definition invoke :: "string \<Rightarrow> Adapter \<Rightarrow> Ptr \<Rightarrow> World \<Rightarrow> Error option \<times> World" where
  "invoke name f e w =
     (case f e (heap w, clock w) of
        ((h, t), err) \<Rightarrow> (err, w\<lparr>heap := h, clock := t, invoked := invoked w @ [(name, e)]\<rparr>))"

definition GetKonnectID :: "Externals \<Rightarrow> KonnectEntityStatus option \<Rightarrow> string option" where
  "GetKonnectID x s = (case s of None \<Rightarrow> nilStatusKonnectID x | Some st \<Rightarrow> Some (statusID st))"

text \<open>A call returns, or panics.\<close>

datatype 'a Outcome = Return 'a | Panic

record Result =
  Requeue :: bool
  RequeueAfter :: Duration

definition emptyResult :: Result where
  "emptyResult = \<lparr>Requeue = False, RequeueAfter = 0\<rparr>"

section \<open>The dispatch core\<close>

text \<open>
  \<open>logOpComplete\<close> reads the status behind the handle when it runs, that is after the
  operation. \<open>entityTypeName\<close> is not among the sources: the type field of the record
  holds the entity type of the handle.
\<close>

definition logOpComplete :: "Time \<Rightarrow> Op \<Rightarrow> Ptr \<Rightarrow> World \<Rightarrow> World" where
  "logOpComplete start op e w =
     (case objKonnectStatus (heap w (ptrAddr e)) of
        None \<Rightarrow> w
      | Some s \<Rightarrow>
          w\<lparr>logs := logs w @ [OpComplete op (Sub (clock w) start) (ptrKind e) (statusID s)]\<rparr>)"

text \<open>
  \<open>Create\<close> defers \<open>logOpComplete\<close> first, with the start time read there, and then
  switches on the type. The deferred call runs on the world the switch leaves.
\<close>

definition Create :: "Externals \<Rightarrow> Ptr \<Rightarrow> World \<Rightarrow> (Ptr option \<times> Error option) \<times> World" where
  "Create x e w =
     (let start = clock w;
          (ret, w') =
            (case ptrKind e of
               KonnectControlPlane \<Rightarrow>
                 (case invoke ''createControlPlane'' (createControlPlane x) e w of
                    (err, w1) \<Rightarrow> ((Some e, err), w1))
             | KongService \<Rightarrow>
                 (case invoke ''createService'' (createService x) e w of
                    (err, w1) \<Rightarrow> ((Some e, err), w1))
             | KongRoute \<Rightarrow>
                 (case invoke ''createRoute'' (createRoute x) e w of
                    (err, w1) \<Rightarrow> ((Some e, err), w1))
             | KongConsumer \<Rightarrow>
                 (case invoke ''createConsumer'' (createConsumer x) e w of
                    (err, w1) \<Rightarrow> ((Some e, err), w1))
             | KongConsumerGroup \<Rightarrow>
                 (case invoke ''createConsumerGroup'' (createConsumerGroup x) e w of
                    (err, w1) \<Rightarrow> ((Some e, err), w1))
             | OtherType n \<Rightarrow>
                 ((None,
                   Some (Errorf ''unsupported entity type %T''
                           [APtr (ptrKind e) (Some (heap w (ptrAddr e)))])), w))
      in (ret, logOpComplete start CreateOp e w'))"

text \<open>
  \<open>Delete\<close> checks the Konnect ID before it defers \<open>logOpComplete\<close>: the return for a
  missing ID runs no deferred call.
\<close>

definition Delete :: "Externals \<Rightarrow> Ptr \<Rightarrow> World \<Rightarrow> Error option Outcome \<times> World" where
  "Delete x e w =
     (let ent = heap w (ptrAddr e)
      in case GetKonnectID x (objKonnectStatus ent) of
           None \<Rightarrow> (Panic, w)
         | Some konnectID \<Rightarrow>
             if konnectID = [] then
               (Return (Some (Errorf ''can't delete %T %s when it does not have the Konnect ID''
                                [APtr (ptrKind e) (Some ent), AKey (ObjectKeyFromObject ent)])), w)
             else
               (let start = clock w;
                    (ret, w') =
                      (case ptrKind e of
                         KonnectControlPlane \<Rightarrow>
                           invoke ''deleteControlPlane'' (deleteControlPlane x) e w
                       | KongService \<Rightarrow> invoke ''deleteService'' (deleteService x) e w
                       | KongRoute \<Rightarrow> invoke ''deleteRoute'' (deleteRoute x) e w
                       | KongConsumer \<Rightarrow> invoke ''deleteConsumer'' (deleteConsumer x) e w
                       | KongConsumerGroup \<Rightarrow>
                           invoke ''deleteConsumerGroup'' (deleteConsumerGroup x) e w
                       | OtherType n \<Rightarrow>
                           (Some (Errorf ''unsupported entity type %T''
                                    [APtr (ptrKind e) (Some ent)]), w))
                in (Return ret, logOpComplete start DeleteOp e w')))"

text \<open>
  The staleness test of \<open>Update\<close>, on the condition found, the entity's generation, the
  time since the condition's last transition and the sync period.
\<close>

definition fresh :: "Condition \<times> bool \<Rightarrow> 64 word \<Rightarrow> Duration \<Rightarrow> Duration \<Rightarrow> bool" where
  "fresh found generation timeFromLastUpdate syncPeriod =
     (snd found \<and>
      condStatus (fst found) = ConditionTrue \<and>
      condReason (fst found) = KonnectEntityProgrammedReasonProgrammed \<and>
      condObservedGeneration (fst found) = generation \<and>
      sint timeFromLastUpdate \<le> sint syncPeriod)"

text \<open>
  \<open>Update\<close> reads the condition and the clock, returns at once when the entity is fresh,
  then checks the Konnect ID, and only then defers \<open>logOpComplete\<close> and switches on the
  type. Neither of the two early returns runs a deferred call.
\<close>

definition Update ::
  "Externals \<Rightarrow> Duration \<Rightarrow> Ptr \<Rightarrow> World \<Rightarrow> (Result \<times> Error option) Outcome \<times> World" where
  "Update x syncPeriod e w =
     (let ent = heap w (ptrAddr e);
          found = GetCondition KonnectEntityProgrammedConditionType (objConditions ent);
          now = clock w;
          timeFromLastUpdate = Sub (clock w) (condLastTransitionTime (fst found))
      in if fresh found (objGeneration ent) timeFromLastUpdate syncPeriod then
           (let requeueAfter = syncPeriod - timeFromLastUpdate
            in (Return (\<lparr>Requeue = False, RequeueAfter = requeueAfter\<rparr>, None),
                w\<lparr>logs := logs w @
                     [NoNeedForUpdate e (condLastTransitionTime (fst found)) timeFromLastUpdate
                        requeueAfter (now + sint requeueAfter)]\<rparr>))
         else
           (case GetKonnectID x (objKonnectStatus ent) of
              None \<Rightarrow> (Panic, w)
            | Some konnectID \<Rightarrow>
                if konnectID = [] then
                  (Return (emptyResult,
                     Some (Errorf ''can't update %T %s when it does not have the Konnect ID''
                             [APtr (ptrKind e) (Some ent), AKey (ObjectKeyFromObject ent)])), w)
                else
                  (let (ret, w') =
                         (case ptrKind e of
                            KonnectControlPlane \<Rightarrow>
                              invoke ''updateControlPlane'' (updateControlPlane x) e w
                          | KongService \<Rightarrow> invoke ''updateService'' (updateService x) e w
                          | KongRoute \<Rightarrow> invoke ''updateRoute'' (updateRoute x) e w
                          | KongConsumer \<Rightarrow> invoke ''updateConsumer'' (updateConsumer x) e w
                          | KongConsumerGroup \<Rightarrow>
                              invoke ''updateConsumerGroup'' (updateConsumerGroup x) e w
                          | OtherType n \<Rightarrow>
                              (Some (Errorf ''unsupported entity type %T''
                                       [APtr (ptrKind e) (Some ent)]), w))
                   in (Return (emptyResult, ret), logOpComplete now UpdateOp e w'))))"

text \<open>
  \<open>wrapErrIfKonnectOpFailed\<close>: nil for a nil error; otherwise one of two formats, chosen
  by whether the handle is nil. In the second the key is the operand of \<open>%T\<close> and the
  entity that of \<open>%q\<close>, as the call has them.
\<close>

definition wrapErrIfKonnectOpFailed ::
  "Error option \<Rightarrow> Op \<Rightarrow> Kind \<Rightarrow> Object option \<Rightarrow> Error option" where
  "wrapErrIfKonnectOpFailed err op k e =
     (case err of
        Some cause \<Rightarrow>
          (case e of
             None \<Rightarrow> Some (Errorf ''failed to %s for %T: %w'' [AOp op, APtr k None, AErr cause])
           | Some obj \<Rightarrow>
               Some (Errorf ''failed to %s for %T %q: %w''
                       [AOp op, AKey (ObjectKeyFromObject obj), APtr k (Some obj), AErr cause]))
      | None \<Rightarrow> None)"

section \<open>Cause chains\<close>

text \<open>
  \<open>errors.Is\<close>: the target is the error itself or is reached by unwrapping it, one
  wrapped error after the other. The chain is finite, as a wrapped error is an operand
  of the error that wraps it.
\<close>

lemma wrapped_mem: "wrapped vas = Some e \<Longrightarrow> AErr e \<in> snd ` set vas"
  by (induction vas rule: wrapped.induct) (auto split: if_splits)

lemma Unwrap_size: "Unwrap err = Some c \<Longrightarrow> size c < size err"
proof (cases err)
  case (ErrorString s)
  assume "Unwrap err = Some c"
  with ErrorString show ?thesis by simp
next
  case (Errorf f as)
  assume "Unwrap err = Some c"
  with Errorf have "AErr c \<in> snd ` set (zip (verbs f) as)" by (simp add: wrapped_mem)
  then have "AErr c \<in> set as" by (auto dest: set_zip_rightD)
  then have "size (AErr c) \<le> size_list size as" by (simp add: size_list_estimation')
  with Errorf show ?thesis by simp
qed

function errorsIs :: "Error \<Rightarrow> Error \<Rightarrow> bool" where
  "errorsIs err target =
     (err = target \<or> (case Unwrap err of None \<Rightarrow> False | Some c \<Rightarrow> errorsIs c target))"
  by pat_completeness auto
termination
  by (relation "measure (\<lambda>(err, target). size err)") (auto simp: Unwrap_size)

section \<open>Auxiliary notions for the statements\<close>

text \<open>
  The three type switches as tables: the adapter an operation calls for a type, with the
  name under which \<open>invoked\<close> records it; \<open>None\<close> for the default branch.
\<close>

fun createAdapter :: "Externals \<Rightarrow> Kind \<Rightarrow> (string \<times> Adapter) option" where
  "createAdapter x KonnectControlPlane = Some (''createControlPlane'', createControlPlane x)"
| "createAdapter x KongService = Some (''createService'', createService x)"
| "createAdapter x KongRoute = Some (''createRoute'', createRoute x)"
| "createAdapter x KongConsumer = Some (''createConsumer'', createConsumer x)"
| "createAdapter x KongConsumerGroup = Some (''createConsumerGroup'', createConsumerGroup x)"
| "createAdapter x (OtherType n) = None"

fun deleteAdapter :: "Externals \<Rightarrow> Kind \<Rightarrow> (string \<times> Adapter) option" where
  "deleteAdapter x KonnectControlPlane = Some (''deleteControlPlane'', deleteControlPlane x)"
| "deleteAdapter x KongService = Some (''deleteService'', deleteService x)"
| "deleteAdapter x KongRoute = Some (''deleteRoute'', deleteRoute x)"
| "deleteAdapter x KongConsumer = Some (''deleteConsumer'', deleteConsumer x)"
| "deleteAdapter x KongConsumerGroup = Some (''deleteConsumerGroup'', deleteConsumerGroup x)"
| "deleteAdapter x (OtherType n) = None"

fun updateAdapter :: "Externals \<Rightarrow> Kind \<Rightarrow> (string \<times> Adapter) option" where
  "updateAdapter x KonnectControlPlane = Some (''updateControlPlane'', updateControlPlane x)"
| "updateAdapter x KongService = Some (''updateService'', updateService x)"
| "updateAdapter x KongRoute = Some (''updateRoute'', updateRoute x)"
| "updateAdapter x KongConsumer = Some (''updateConsumer'', updateConsumer x)"
| "updateAdapter x KongConsumerGroup = Some (''updateConsumerGroup'', updateConsumerGroup x)"
| "updateAdapter x (OtherType n) = None"

text \<open>The entity behind a handle, and its Konnect ID as the operations read it.\<close>

definition entityOf :: "Ptr \<Rightarrow> World \<Rightarrow> Object" where
  "entityOf e w = heap w (ptrAddr e)"

definition konnectIDOf :: "Externals \<Rightarrow> Ptr \<Rightarrow> World \<Rightarrow> string option" where
  "konnectIDOf x e w = GetKonnectID x (objKonnectStatus (entityOf e w))"

text \<open>
  The \<open>Programmed\<close> condition that \<open>Update\<close> reads, the time since its last transition
  on the clock of the world, and the staleness test on them.
\<close>

definition programmedOf :: "Ptr \<Rightarrow> World \<Rightarrow> Condition \<times> bool" where
  "programmedOf e w =
     GetCondition KonnectEntityProgrammedConditionType (objConditions (entityOf e w))"

definition elapsedOf :: "Ptr \<Rightarrow> World \<Rightarrow> Duration" where
  "elapsedOf e w = Sub (clock w) (condLastTransitionTime (fst (programmedOf e w)))"

definition freshAt :: "Duration \<Rightarrow> Ptr \<Rightarrow> World \<Rightarrow> bool" where
  "freshAt syncPeriod e w =
     fresh (programmedOf e w) (objGeneration (entityOf e w)) (elapsedOf e w) syncPeriod"

text \<open>The errors of the core's own returns.\<close>

abbreviation errUnsupported :: "Ptr \<Rightarrow> Object \<Rightarrow> Error" where
  "errUnsupported e ent \<equiv> Errorf ''unsupported entity type %T'' [APtr (ptrKind e) (Some ent)]"

abbreviation errDeleteNoID :: "Ptr \<Rightarrow> Object \<Rightarrow> Error" where
  "errDeleteNoID e ent \<equiv>
     Errorf ''can't delete %T %s when it does not have the Konnect ID''
       [APtr (ptrKind e) (Some ent), AKey (ObjectKeyFromObject ent)]"

abbreviation errUpdateNoID :: "Ptr \<Rightarrow> Object \<Rightarrow> Error" where
  "errUpdateNoID e ent \<equiv>
     Errorf ''can't update %T %s when it does not have the Konnect ID''
       [APtr (ptrKind e) (Some ent), AKey (ObjectKeyFromObject ent)]"

text \<open>The entity types with a case of their own in the type switches.\<close>

fun supported :: "Kind \<Rightarrow> bool" where
  "supported (OtherType n) = False"
| "supported k = True"

text \<open>The telemetry records among the log entries, and their number.\<close>

fun isOpComplete :: "LogEntry \<Rightarrow> bool" where
  "isOpComplete (OpComplete op d k i) = True"
| "isOpComplete (NoNeedForUpdate e t d r a) = False"

definition opCompleteCount :: "World \<Rightarrow> nat" where
  "opCompleteCount w = length (filter isOpComplete (logs w))"

section \<open>Example inputs\<close>

text \<open>
  A service \<open>default/svc\<close> at generation 1, in four states: programmed at instant 0 with
  Konnect ID \<open>abc\<close>; programmed likewise but with an empty Konnect ID; without
  conditions and with an empty Konnect ID; without conditions and with a nil status.
\<close>

definition programmedCondition :: Condition where
  "programmedCondition =
     \<lparr>condType = ''Programmed'', condStatus = ''True'', condObservedGeneration = 1,
      condLastTransitionTime = 0, condReason = ''Programmed'', condMessage = []\<rparr>"

definition svcProgrammed :: Object where
  "svcProgrammed =
     \<lparr>objNamespace = ''default'', objName = ''svc'', objGeneration = 1,
      objConditions = [programmedCondition],
      objKonnectStatus = Some \<lparr>statusID = ''abc'', statusServerURL = [], statusOrgID = []\<rparr>\<rparr>"

definition svcProgrammedNoID :: Object where
  "svcProgrammedNoID =
     \<lparr>objNamespace = ''default'', objName = ''svc'', objGeneration = 1,
      objConditions = [programmedCondition],
      objKonnectStatus = Some \<lparr>statusID = [], statusServerURL = [], statusOrgID = []\<rparr>\<rparr>"

definition svcNoID :: Object where
  "svcNoID =
     \<lparr>objNamespace = ''default'', objName = ''svc'', objGeneration = 1,
      objConditions = [],
      objKonnectStatus = Some \<lparr>statusID = [], statusServerURL = [], statusOrgID = []\<rparr>\<rparr>"

definition svcNilStatus :: Object where
  "svcNilStatus =
     \<lparr>objNamespace = ''default'', objName = ''svc'', objGeneration = 1,
      objConditions = [], objKonnectStatus = None\<rparr>"

text \<open>A world that holds one object at every address, at a given instant.\<close>

definition worldOf :: "Object \<Rightarrow> Time \<Rightarrow> World" where
  "worldOf obj t = \<lparr>heap = (\<lambda>a. obj), clock = t, logs = [], invoked = []\<rparr>"

definition svcPtr :: Ptr where
  "svcPtr = \<lparr>ptrKind = KongService, ptrAddr = 0\<rparr>"

text \<open>
  An adapter that changes nothing and succeeds. The example externals use it for every
  type; their \<open>GetKonnectID\<close> panics on a nil status.
\<close>

definition okAdapter :: Adapter where
  "okAdapter e s = (s, None)"

definition allAdapters :: "Adapter \<Rightarrow> Externals" where
  "allAdapters f =
     \<lparr>createControlPlane = f, createService = f, createRoute = f, createConsumer = f,
      createConsumerGroup = f, deleteControlPlane = f, deleteService = f, deleteRoute = f,
      deleteConsumer = f, deleteConsumerGroup = f, updateControlPlane = f,
      updateService = f, updateRoute = f, updateConsumer = f, updateConsumerGroup = f,
      nilStatusKonnectID = None\<rparr>"

section \<open>The operations, path by path\<close>

lemma invoke_world:
  "invoke name f e w =
     (snd (f e (heap w, clock w)),
      w\<lparr>heap := fst (fst (f e (heap w, clock w))), clock := snd (fst (f e (heap w, clock w))),
        invoked := invoked w @ [(name, e)]\<rparr>)"
  by (simp add: invoke_def split: prod.splits)

lemma logOpComplete_fields:
  "heap (logOpComplete start op e w) = heap w"
  "clock (logOpComplete start op e w) = clock w"
  "invoked (logOpComplete start op e w) = invoked w"
  by (simp_all add: logOpComplete_def split: option.splits)

lemma logOpComplete_count:
  "opCompleteCount (logOpComplete start op e w) =
     opCompleteCount w + (if objKonnectStatus (heap w (ptrAddr e)) = None then 0 else 1)"
  by (simp add: logOpComplete_def opCompleteCount_def split: option.splits)

lemma Create_paths:
  "Create x e w =
     (case createAdapter x (ptrKind e) of
        None \<Rightarrow>
          ((None, Some (errUnsupported e (entityOf e w))), logOpComplete (clock w) CreateOp e w)
      | Some (name, f) \<Rightarrow>
          ((Some e, fst (invoke name f e w)),
           logOpComplete (clock w) CreateOp e (snd (invoke name f e w))))"
  by (cases "ptrKind e") (simp_all add: Create_def entityOf_def Let_def split: prod.splits)

lemma Delete_paths:
  "Delete x e w =
     (case konnectIDOf x e w of
        None \<Rightarrow> (Panic, w)
      | Some konnectID \<Rightarrow>
          if konnectID = [] then (Return (Some (errDeleteNoID e (entityOf e w))), w)
          else
            (case deleteAdapter x (ptrKind e) of
               None \<Rightarrow>
                 (Return (Some (errUnsupported e (entityOf e w))),
                  logOpComplete (clock w) DeleteOp e w)
             | Some (name, f) \<Rightarrow>
                 (Return (fst (invoke name f e w)),
                  logOpComplete (clock w) DeleteOp e (snd (invoke name f e w)))))"
  by (cases "ptrKind e")
    (simp_all add: Delete_def konnectIDOf_def entityOf_def Let_def
       split: prod.splits option.splits)

lemma Update_paths:
  "Update x syncPeriod e w =
     (if freshAt syncPeriod e w then
        (Return (\<lparr>Requeue = False, RequeueAfter = syncPeriod - elapsedOf e w\<rparr>, None),
         w\<lparr>logs := logs w @
              [NoNeedForUpdate e (condLastTransitionTime (fst (programmedOf e w)))
                 (elapsedOf e w) (syncPeriod - elapsedOf e w)
                 (clock w + sint (syncPeriod - elapsedOf e w))]\<rparr>)
      else
        (case konnectIDOf x e w of
           None \<Rightarrow> (Panic, w)
         | Some konnectID \<Rightarrow>
             if konnectID = [] then
               (Return (emptyResult, Some (errUpdateNoID e (entityOf e w))), w)
             else
               (case updateAdapter x (ptrKind e) of
                  None \<Rightarrow>
                    (Return (emptyResult, Some (errUnsupported e (entityOf e w))),
                     logOpComplete (clock w) UpdateOp e w)
                | Some (name, f) \<Rightarrow>
                    (Return (emptyResult, fst (invoke name f e w)),
                     logOpComplete (clock w) UpdateOp e (snd (invoke name f e w))))))"
  by (cases "ptrKind e")
    (simp_all add: Update_def freshAt_def programmedOf_def elapsedOf_def konnectIDOf_def
       entityOf_def Let_def split: prod.splits option.splits)

lemma Create_invoked:
  "invoked (snd (Create x e w)) =
     invoked w @ (case createAdapter x (ptrKind e) of None \<Rightarrow> [] | Some (name, f) \<Rightarrow> [(name, e)])"
  by (simp add: Create_paths logOpComplete_fields invoke_world split: option.splits)

lemma Delete_invoked:
  "invoked (snd (Delete x e w)) =
     invoked w @
     (if konnectIDOf x e w = None \<or> konnectIDOf x e w = Some [] then []
      else case deleteAdapter x (ptrKind e) of None \<Rightarrow> [] | Some (name, f) \<Rightarrow> [(name, e)])"
  by (simp add: Delete_paths logOpComplete_fields invoke_world split: option.splits)

lemma Update_invoked:
  "invoked (snd (Update x syncPeriod e w)) =
     invoked w @
     (if freshAt syncPeriod e w \<or> konnectIDOf x e w = None \<or> konnectIDOf x e w = Some [] then []
      else case updateAdapter x (ptrKind e) of None \<Rightarrow> [] | Some (name, f) \<Rightarrow> [(name, e)])"
  by (simp add: Update_paths logOpComplete_fields invoke_world split: option.splits)

lemma Create_heap:
  "heap (snd (Create x e w)) =
     (case createAdapter x (ptrKind e) of
        None \<Rightarrow> heap w
      | Some (name, f) \<Rightarrow> fst (fst (f e (heap w, clock w))))"
  by (simp add: Create_paths logOpComplete_fields invoke_world split: option.splits)

lemma Delete_heap:
  "heap (snd (Delete x e w)) =
     (if konnectIDOf x e w = None \<or> konnectIDOf x e w = Some [] then heap w
      else case deleteAdapter x (ptrKind e) of
             None \<Rightarrow> heap w
           | Some (name, f) \<Rightarrow> fst (fst (f e (heap w, clock w))))"
  by (simp add: Delete_paths logOpComplete_fields invoke_world split: option.splits)

lemma Update_heap:
  "heap (snd (Update x syncPeriod e w)) =
     (if freshAt syncPeriod e w \<or> konnectIDOf x e w = None \<or> konnectIDOf x e w = Some []
      then heap w
      else case updateAdapter x (ptrKind e) of
             None \<Rightarrow> heap w
           | Some (name, f) \<Rightarrow> fst (fst (f e (heap w, clock w))))"
  by (simp add: Update_paths logOpComplete_fields invoke_world split: option.splits)

lemma supported_adapters:
  "(createAdapter x k = None) = (\<not> supported k)"
  "(deleteAdapter x k = None) = (\<not> supported k)"
  "(updateAdapter x k = None) = (\<not> supported k)"
  by (cases k; simp)+

lemma opCompleteCount_invoke:
  "opCompleteCount (snd (invoke name f e w)) = opCompleteCount w"
  by (simp add: invoke_world opCompleteCount_def)

lemma opCompleteCount_debug:
  "opCompleteCount (w\<lparr>logs := logs w @ [NoNeedForUpdate p t d r a]\<rparr>) = opCompleteCount w"
  by (simp add: opCompleteCount_def)

lemma logOpComplete_count_after:
  "opCompleteCount (logOpComplete start op e w) =
     opCompleteCount w +
     (if objKonnectStatus (entityOf e (logOpComplete start op e w)) = None then 0 else 1)"
  by (simp add: logOpComplete_count entityOf_def logOpComplete_fields)

text \<open>Unfolding the example inputs.\<close>

lemmas example_defs =
  worldOf_def svcPtr_def svcProgrammed_def svcProgrammedNoID_def svcNoID_def
  svcNilStatus_def programmedCondition_def allAdapters_def okAdapter_def

lemmas reading_defs =
  freshAt_def fresh_def programmedOf_def elapsedOf_def entityOf_def konnectIDOf_def
  GetKonnectID_def KonnectEntityProgrammedConditionType_def
  KonnectEntityProgrammedReasonProgrammed_def ConditionTrue_def
  Sub_def maxDuration_def minDuration_def

lemma sint_sub_fits:
  fixes a b :: "64 word"
  assumes "- (2 ^ 63) \<le> sint a - sint b" "sint a - sint b < 2 ^ 63"
  shows "sint (a - b) = sint a - sint b"
  using assms by (simp add: sint_word_ariths signed_take_bit_int_eq_self)

lemma GetCondition_found:
  "snd (GetCondition cType cs) = (cType \<in> condType ` set cs)"
  by (induction cs) auto

lemma same_heap_readings:
  assumes "heap v = heap w"
  shows "entityOf e v = entityOf e w" "programmedOf e v = programmedOf e w"
    "konnectIDOf x e v = konnectIDOf x e w"
  using assms by (simp_all add: entityOf_def programmedOf_def konnectIDOf_def)

section \<open>Telemetry on a nil status\<close>

text \<open>
  C10. When the status accessor of the entity returns nil, \<open>logOpComplete\<close> returns
  without emitting a record and leaves the world as it was. Hence an operation that ends
  with the entity's status nil has added no telemetry record: this holds for \<open>Create\<close>,
  \<open>Delete\<close> and \<open>Update\<close>.
\<close>

theorem logOpComplete_nil_status:
  assumes "objKonnectStatus (entityOf e w) = None"
    and "objKonnectStatus (entityOf e (snd (Create x e w))) = None"
    and "objKonnectStatus (entityOf e (snd (Delete x e w))) = None"
    and "objKonnectStatus (entityOf e (snd (Update x syncPeriod e w))) = None"
  shows "logOpComplete start op e w = w \<and>
         opCompleteCount (snd (Create x e w)) = opCompleteCount w \<and>
         opCompleteCount (snd (Delete x e w)) = opCompleteCount w \<and>
         opCompleteCount (snd (Update x syncPeriod e w)) = opCompleteCount w"
proof -
  have l: "logOpComplete start op e w = w"
    using assms(1) by (simp add: logOpComplete_def entityOf_def)
  have quiet: "opCompleteCount (logOpComplete s o' e v) = opCompleteCount v"
    if "objKonnectStatus (entityOf e (logOpComplete s o' e v)) = None" for s o' v
    using that by (simp add: logOpComplete_count entityOf_def logOpComplete_fields)
  have inv: "opCompleteCount (snd (invoke name f e w)) = opCompleteCount w" for name f
    by (simp add: invoke_world opCompleteCount_def)
  have c: "opCompleteCount (snd (Create x e w)) = opCompleteCount w"
    using assms(2) by (auto simp: Create_paths quiet inv split: option.splits)
  have d: "opCompleteCount (snd (Delete x e w)) = opCompleteCount w"
    using assms(3) by (auto simp: Delete_paths quiet inv split: option.splits if_splits)
  have dbg: "opCompleteCount (w\<lparr>logs := logs w @ [NoNeedForUpdate p t d r a]\<rparr>) =
      opCompleteCount w" for p t d r a
    by (simp add: opCompleteCount_def)
  have u: "opCompleteCount (snd (Update x syncPeriod e w)) = opCompleteCount w"
    using assms(4)
    by (auto simp: Update_paths quiet inv dbg split: option.splits if_splits)
  from l c d u show ?thesis by simp
qed

theorem logOpComplete_nil_status_witness:
  "objKonnectStatus (entityOf svcPtr (worldOf svcNilStatus 7)) = None \<and>
   logOpComplete 3 CreateOp svcPtr (worldOf svcNilStatus 7) = worldOf svcNilStatus 7 \<and>
   opCompleteCount (snd (Create (allAdapters okAdapter) svcPtr (worldOf svcNilStatus 7))) = 0 \<and>
   opCompleteCount (snd (Delete (allAdapters okAdapter) svcPtr (worldOf svcNilStatus 7))) = 0 \<and>
   opCompleteCount (snd (Update (allAdapters okAdapter) 10 svcPtr (worldOf svcNilStatus 7))) = 0"
proof -
  have h1: "objKonnectStatus (entityOf svcPtr (worldOf svcNilStatus 7)) = None"
    by (simp add: entityOf_def worldOf_def svcNilStatus_def)
  have h2: "objKonnectStatus (entityOf svcPtr
              (snd (Create (allAdapters okAdapter) svcPtr (worldOf svcNilStatus 7)))) = None"
    by (simp add: Create_paths svcPtr_def allAdapters_def invoke_world okAdapter_def
          entityOf_def logOpComplete_fields worldOf_def svcNilStatus_def)
  have h3: "objKonnectStatus (entityOf svcPtr
              (snd (Delete (allAdapters okAdapter) svcPtr (worldOf svcNilStatus 7)))) = None"
    by (simp add: Delete_paths konnectIDOf_def GetKonnectID_def svcPtr_def allAdapters_def
          entityOf_def worldOf_def svcNilStatus_def)
  have h4: "objKonnectStatus (entityOf svcPtr
              (snd (Update (allAdapters okAdapter) 10 svcPtr (worldOf svcNilStatus 7)))) = None"
    by (simp add: Update_paths freshAt_def fresh_def programmedOf_def konnectIDOf_def
          GetKonnectID_def svcPtr_def allAdapters_def entityOf_def worldOf_def svcNilStatus_def)
  have z: "opCompleteCount (worldOf svcNilStatus 7) = 0"
    by (simp add: opCompleteCount_def worldOf_def)
  show ?thesis
    using logOpComplete_nil_status [OF h1 h2 h3 h4, of 3 CreateOp] h1 z by simp
qed

section \<open>The error normalizer\<close>

text \<open>
  C7. \<open>wrapErrIfKonnectOpFailed\<close> returns nil exactly when the adapter's error is nil.
  For every non-nil adapter error, whatever the operation and the handle, it returns an
  error that wraps the original one: \<open>errors.Unwrap\<close> gives the original error back, and
  \<open>errors.Is\<close> finds it in the cause chain.
\<close>

theorem wrapErrIfKonnectOpFailed_keeps_cause:
  "(wrapErrIfKonnectOpFailed err op k e = None) = (err = None) \<and>
   (\<exists>n. wrapErrIfKonnectOpFailed (Some cause) op k e = Some n \<and>
        Unwrap n = Some cause \<and> errorsIs n cause)"
proof -
  have nil: "(wrapErrIfKonnectOpFailed err op k e = None) = (err = None)"
    by (cases err; cases e) (simp_all add: wrapErrIfKonnectOpFailed_def)
  have keeps: "\<exists>n. wrapErrIfKonnectOpFailed (Some cause) op k e = Some n \<and>
      Unwrap n = Some cause \<and> errorsIs n cause"
    by (cases e) (simp_all add: wrapErrIfKonnectOpFailed_def)
  from nil keeps show ?thesis by simp
qed

text \<open>
  The two messages of the normalizer, for any operation, cause and rendering \<open>q\<close> of
  \<open>%q\<close>. With a handle that is not nil the operand of \<open>%T\<close> is the key, so that the
  name of the key's type is printed, and the operand of \<open>%q\<close> is the entity.
\<close>

lemma wrapErrIfKonnectOpFailed_forms:
  assumes "wrapErrIfKonnectOpFailed (Some cause) op k e = Some n"
  shows "Error_msg q n =
           ''failed to '' @ op @ '' for '' @
           (case e of
              None \<Rightarrow> typeName k
            | Some obj \<Rightarrow> ''types.NamespacedName '' @ q k (Some obj)) @
           '': '' @ Error_msg q cause"
  using assms by (cases e) (auto simp: wrapErrIfKonnectOpFailed_def)

text \<open>
  C4. An adapter failure \<open>boom\<close> in \<open>Update\<close> on the service \<open>default/svc\<close> with
  Konnect ID \<open>abc\<close> should give a message with the operation kind, the entity key and
  \<open>abc\<close>. The code pairs the verbs with the operands in the wrong order: \<open>%T\<close> gets
  the key and \<open>%q\<close> the entity. The message is
  \<open>failed to update for types.NamespacedName\<close>, then what \<open>%q\<close> prints for the
  whole entity, then \<open>: boom\<close>. The operation kind is there; where the key should stand
  there is the name of the key's type; the Konnect ID is no operand at all.
\<close>

theorem wrapErrIfKonnectOpFailed_update_message:
  "wrapErrIfKonnectOpFailed (Some (ErrorString ''boom'')) UpdateOp KongService
       (Some svcProgrammed) =
     Some (Errorf ''failed to %s for %T %q: %w''
             [AOp ''update'', AKey (''default'', ''svc''), APtr KongService (Some svcProgrammed),
              AErr (ErrorString ''boom'')]) \<and>
   zip (verbs ''failed to %s for %T %q: %w'')
       [AOp ''update'', AKey (''default'', ''svc''), APtr KongService (Some svcProgrammed),
        AErr (ErrorString ''boom'')] =
     [(CHR ''s'', AOp ''update''), (CHR ''T'', AKey (''default'', ''svc'')),
      (CHR ''q'', APtr KongService (Some svcProgrammed)),
      (CHR ''w'', AErr (ErrorString ''boom''))] \<and>
   Error_msg q
     (Errorf ''failed to %s for %T %q: %w''
        [AOp ''update'', AKey (''default'', ''svc''), APtr KongService (Some svcProgrammed),
         AErr (ErrorString ''boom'')]) =
     ''failed to update for types.NamespacedName '' @ q KongService (Some svcProgrammed) @
     '': boom''"
proof -
  have made: "wrapErrIfKonnectOpFailed (Some (ErrorString ''boom'')) UpdateOp KongService
       (Some svcProgrammed) =
     Some (Errorf ''failed to %s for %T %q: %w''
             [AOp ''update'', AKey (''default'', ''svc''), APtr KongService (Some svcProgrammed),
              AErr (ErrorString ''boom'')])"
    by (simp add: wrapErrIfKonnectOpFailed_def UpdateOp_def ObjectKeyFromObject_def
          svcProgrammed_def)
  have paired: "zip (verbs ''failed to %s for %T %q: %w'')
       [AOp ''update'', AKey (''default'', ''svc''), APtr KongService (Some svcProgrammed),
        AErr (ErrorString ''boom'')] =
     [(CHR ''s'', AOp ''update''), (CHR ''T'', AKey (''default'', ''svc'')),
      (CHR ''q'', APtr KongService (Some svcProgrammed)),
      (CHR ''w'', AErr (ErrorString ''boom''))]"
    by simp
  have printed: "Error_msg q
     (Errorf ''failed to %s for %T %q: %w''
        [AOp ''update'', AKey (''default'', ''svc''), APtr KongService (Some svcProgrammed),
         AErr (ErrorString ''boom'')]) =
     ''failed to update for types.NamespacedName '' @ q KongService (Some svcProgrammed) @
     '': boom''"
    by simp
  from made paired printed show ?thesis by simp
qed

section \<open>What Create returns\<close>

text \<open>
  C8. For each of the five supported entity types \<open>Create\<close> returns the handle it was
  given, the same address and not a copy, together with whatever the adapter returned,
  an error or nil. For any other type it returns a nil handle together with the
  unsupported-type error.
\<close>

theorem Create_returns_handle:
  "fst (fst (Create x e w)) = (if supported (ptrKind e) then Some e else None) \<and>
   snd (fst (Create x e w)) =
     (case createAdapter x (ptrKind e) of
        Some (name, f) \<Rightarrow> snd (f e (heap w, clock w))
      | None \<Rightarrow> Some (errUnsupported e (entityOf e w))) \<and>
   (createAdapter x (ptrKind e) = None) = (\<not> supported (ptrKind e))"
proof -
  have sup: "(createAdapter x (ptrKind e) = None) = (\<not> supported (ptrKind e))"
    by (simp add: supported_adapters)
  show ?thesis
  proof (cases "createAdapter x (ptrKind e)")
    case None
    with sup show ?thesis by (simp add: Create_paths)
  next
    case (Some a)
    obtain name f where "a = (name, f)" by (cases a)
    with Some sup show ?thesis by (simp add: Create_paths invoke_world)
  qed
qed

section \<open>The core writes to no entity\<close>

text \<open>
  C9. None of the three operations writes to an object of the store itself. On the
  core's own paths (a missing or unreadable Konnect ID in \<open>Delete\<close> and \<open>Update\<close>,
  the fresh return of \<open>Update\<close>, an unsupported type in any of the three) the store after
  the call is the store before it, so conditions, generation and Konnect ID of every
  entity are as they were. On the remaining paths the store after the call is exactly the
  one the adapter of the entity's type left.
\<close>

theorem core_writes_no_entity:
  "heap (snd (Create x e w)) =
     (case createAdapter x (ptrKind e) of
        None \<Rightarrow> heap w
      | Some (name, f) \<Rightarrow> fst (fst (f e (heap w, clock w)))) \<and>
   heap (snd (Delete x e w)) =
     (if konnectIDOf x e w = None \<or> konnectIDOf x e w = Some [] then heap w
      else case deleteAdapter x (ptrKind e) of
             None \<Rightarrow> heap w
           | Some (name, f) \<Rightarrow> fst (fst (f e (heap w, clock w)))) \<and>
   heap (snd (Update x syncPeriod e w)) =
     (if freshAt syncPeriod e w \<or> konnectIDOf x e w = None \<or> konnectIDOf x e w = Some []
      then heap w
      else case updateAdapter x (ptrKind e) of
             None \<Rightarrow> heap w
           | Some (name, f) \<Rightarrow> fst (fst (f e (heap w, clock w)))) \<and>
   (createAdapter x (ptrKind e) = None) = (\<not> supported (ptrKind e)) \<and>
   (deleteAdapter x (ptrKind e) = None) = (\<not> supported (ptrKind e)) \<and>
   (updateAdapter x (ptrKind e) = None) = (\<not> supported (ptrKind e))"
  using Create_heap [of x e w] Delete_heap [of x e w] Update_heap [of x syncPeriod e w]
  by (simp only: supported_adapters simp_thms)

section \<open>Entities without a Konnect ID\<close>

text \<open>
  The returns of \<open>Delete\<close> and \<open>Update\<close> for an entity whose Konnect ID is read as
  empty. \<open>Delete\<close> checks the ID first. \<open>Update\<close> reaches its check only when the
  staleness test has not already returned.
\<close>

lemma empty_konnect_id_paths:
  assumes "konnectIDOf x e w = Some []"
  shows "Delete x e w = (Return (Some (errDeleteNoID e (entityOf e w))), w) \<and>
         fst (Update x syncPeriod e w) =
           (if freshAt syncPeriod e w then
              Return (\<lparr>Requeue = False, RequeueAfter = syncPeriod - elapsedOf e w\<rparr>, None)
            else Return (emptyResult, Some (errUpdateNoID e (entityOf e w)))) \<and>
         invoked (snd (Update x syncPeriod e w)) = invoked w \<and>
         heap (snd (Update x syncPeriod e w)) = heap w"
  using assms by (simp add: Delete_paths Update_paths)

text \<open>
  C1. For an entity with an empty Konnect ID, \<open>Update\<close> should return the missing-ID
  error, as its own comment and \<open>Delete\<close> have it. It does not when the entity is fresh:
  for the service \<open>default/svc\<close> with an empty Konnect ID and a \<open>Programmed\<close> condition
  set at instant 0, read at instant 5 with sync period 10, \<open>Update\<close> returns the requeue
  hint 5 and no error, because the staleness test returns before the ID is checked. No
  adapter is invoked. On the same entity \<open>Delete\<close> returns the missing-ID error.
\<close>

theorem Update_fresh_without_konnect_id:
  "konnectIDOf (allAdapters okAdapter) svcPtr (worldOf svcProgrammedNoID 5) = Some [] \<and>
   fst (Update (allAdapters okAdapter) 10 svcPtr (worldOf svcProgrammedNoID 5)) =
     Return (\<lparr>Requeue = False, RequeueAfter = 5\<rparr>, None) \<and>
   invoked (snd (Update (allAdapters okAdapter) 10 svcPtr (worldOf svcProgrammedNoID 5))) = [] \<and>
   fst (Delete (allAdapters okAdapter) svcPtr (worldOf svcProgrammedNoID 5)) =
     Return (Some (Errorf ''can't delete %T %s when it does not have the Konnect ID''
                     [APtr KongService (Some svcProgrammedNoID), AKey (''default'', ''svc'')]))"
  by (simp add: Update_paths Delete_paths ObjectKeyFromObject_def reading_defs example_defs)

section \<open>How often telemetry fires\<close>

text \<open>
  C3, as the code has it. A call emits at most one telemetry record. \<open>Create\<close> defers
  \<open>logOpComplete\<close> on entry, so it emits exactly one record on each of its paths
  (adapter success, adapter failure, unsupported type), provided the entity's status is
  not nil when the call ends. \<open>Delete\<close> and \<open>Update\<close> defer it only after their
  checks: they emit exactly one record on the paths that reach the type switch, under the
  same proviso, and none when the Konnect ID is missing or cannot be read, nor when
  \<open>Update\<close> returns early for a fresh entity.
\<close>

theorem telemetry_count:
  "opCompleteCount (snd (Create x e w)) =
     opCompleteCount w +
     (if objKonnectStatus (entityOf e (snd (Create x e w))) = None then 0 else 1) \<and>
   opCompleteCount (snd (Delete x e w)) =
     opCompleteCount w +
     (if konnectIDOf x e w = None \<or> konnectIDOf x e w = Some [] \<or>
         objKonnectStatus (entityOf e (snd (Delete x e w))) = None
      then 0 else 1) \<and>
   opCompleteCount (snd (Update x syncPeriod e w)) =
     opCompleteCount w +
     (if freshAt syncPeriod e w \<or> konnectIDOf x e w = None \<or> konnectIDOf x e w = Some [] \<or>
         objKonnectStatus (entityOf e (snd (Update x syncPeriod e w))) = None
      then 0 else 1)"
proof -
  have c: "opCompleteCount (snd (Create x e w)) =
      opCompleteCount w +
      (if objKonnectStatus (entityOf e (snd (Create x e w))) = None then 0 else 1)"
    by (cases "createAdapter x (ptrKind e)")
      (auto simp: Create_paths logOpComplete_count_after opCompleteCount_invoke)
  have d: "opCompleteCount (snd (Delete x e w)) =
      opCompleteCount w +
      (if konnectIDOf x e w = None \<or> konnectIDOf x e w = Some [] \<or>
          objKonnectStatus (entityOf e (snd (Delete x e w))) = None
       then 0 else 1)"
    by (cases "konnectIDOf x e w"; cases "deleteAdapter x (ptrKind e)")
      (auto simp: Delete_paths logOpComplete_count_after opCompleteCount_invoke)
  have u: "opCompleteCount (snd (Update x syncPeriod e w)) =
      opCompleteCount w +
      (if freshAt syncPeriod e w \<or> konnectIDOf x e w = None \<or> konnectIDOf x e w = Some [] \<or>
          objKonnectStatus (entityOf e (snd (Update x syncPeriod e w))) = None
       then 0 else 1)"
    by (cases "konnectIDOf x e w"; cases "updateAdapter x (ptrKind e)")
      (auto simp: Update_paths logOpComplete_count_after opCompleteCount_invoke
         opCompleteCount_debug)
  from c d u show ?thesis by simp
qed

text \<open>
  The claim as stated fails on two exit paths: \<open>Update\<close> on a fresh service with
  Konnect ID \<open>abc\<close> emits no telemetry record, and neither does \<open>Delete\<close> on a service
  whose Konnect ID is empty.
\<close>

theorem telemetry_count_counterexample:
  "opCompleteCount (worldOf svcProgrammed 5) = 0 \<and>
   opCompleteCount (snd (Update (allAdapters okAdapter) 10 svcPtr (worldOf svcProgrammed 5))) = 0 \<and>
   opCompleteCount (worldOf svcNoID 5) = 0 \<and>
   opCompleteCount (snd (Delete (allAdapters okAdapter) svcPtr (worldOf svcNoID 5))) = 0"
  by (simp add: Update_paths Delete_paths opCompleteCount_def reading_defs example_defs)

section \<open>The staleness test decides between the hint and the adapter\<close>

text \<open>
  C2, as the code has it. Take an entity with a Konnect ID that is not empty and of a
  supported type. \<open>Update\<close> returns early, with the requeue hint and without calling an
  adapter, exactly when the four conditions hold together: a \<open>Programmed\<close> condition
  is found, with status \<open>True\<close> and reason \<open>Programmed\<close>; its observed generation is
  the entity's generation; the time since its last transition is at most the sync
  period. Otherwise \<open>Update\<close> calls the update adapter of the entity's type, once, and
  returns what it returned. So it does when no condition of type \<open>Programmed\<close> is among
  the entity's conditions, and when the generation of a fresh entity is raised by one.
\<close>

theorem Update_dispatches_unless_fresh:
  assumes id: "konnectIDOf x e w = Some konnectID" "konnectID \<noteq> []"
    and ad: "updateAdapter x (ptrKind e) = Some (name, f)"
  shows "freshAt syncPeriod e w =
           (snd (programmedOf e w) \<and>
            condStatus (fst (programmedOf e w)) = ''True'' \<and>
            condReason (fst (programmedOf e w)) = ''Programmed'' \<and>
            condObservedGeneration (fst (programmedOf e w)) = objGeneration (entityOf e w) \<and>
            sint (elapsedOf e w) \<le> sint syncPeriod) \<and>
         snd (programmedOf e w) = (''Programmed'' \<in> condType ` set (objConditions (entityOf e w))) \<and>
         invoked (snd (Update x syncPeriod e w)) =
           (if freshAt syncPeriod e w then invoked w else invoked w @ [(name, e)]) \<and>
         fst (Update x syncPeriod e w) =
           (if freshAt syncPeriod e w then
              Return (\<lparr>Requeue = False, RequeueAfter = syncPeriod - elapsedOf e w\<rparr>, None)
            else Return (emptyResult, snd (f e (heap w, clock w)))) \<and>
         (freshAt syncPeriod e w \<longrightarrow>
            invoked (snd (Update x syncPeriod e
              (w\<lparr>heap := (heap w)(ptrAddr e :=
                    (entityOf e w)\<lparr>objGeneration := objGeneration (entityOf e w) + 1\<rparr>)\<rparr>))) =
              invoked w @ [(name, e)])"
proof -
  let ?wb = "w\<lparr>heap := (heap w)(ptrAddr e :=
                    (entityOf e w)\<lparr>objGeneration := objGeneration (entityOf e w) + 1\<rparr>)\<rparr>"
  have four: "freshAt syncPeriod e w =
           (snd (programmedOf e w) \<and>
            condStatus (fst (programmedOf e w)) = ''True'' \<and>
            condReason (fst (programmedOf e w)) = ''Programmed'' \<and>
            condObservedGeneration (fst (programmedOf e w)) = objGeneration (entityOf e w) \<and>
            sint (elapsedOf e w) \<le> sint syncPeriod)"
    by (simp add: freshAt_def fresh_def ConditionTrue_def
          KonnectEntityProgrammedReasonProgrammed_def)
  have found: "snd (programmedOf e w) =
      (''Programmed'' \<in> condType ` set (objConditions (entityOf e w)))"
    by (simp add: programmedOf_def GetCondition_found KonnectEntityProgrammedConditionType_def)
  have inv: "invoked (snd (Update x syncPeriod e w)) =
           (if freshAt syncPeriod e w then invoked w else invoked w @ [(name, e)])"
    using id ad by (simp add: Update_invoked)
  have ret: "fst (Update x syncPeriod e w) =
           (if freshAt syncPeriod e w then
              Return (\<lparr>Requeue = False, RequeueAfter = syncPeriod - elapsedOf e w\<rparr>, None)
            else Return (emptyResult, snd (f e (heap w, clock w))))"
    using id ad by (simp add: Update_paths invoke_world)
  have bump: "invoked (snd (Update x syncPeriod e ?wb)) = invoked w @ [(name, e)]"
    if fr: "freshAt syncPeriod e w"
  proof -
    have idb: "konnectIDOf x e ?wb = Some konnectID"
      using id by (simp add: konnectIDOf_def entityOf_def)
    have pb: "programmedOf e ?wb = programmedOf e w"
      by (simp add: programmedOf_def entityOf_def)
    have gb: "objGeneration (entityOf e ?wb) = objGeneration (entityOf e w) + 1"
      by (simp add: entityOf_def)
    have "condObservedGeneration (fst (programmedOf e w)) = objGeneration (entityOf e w)"
      using fr four by simp
    then have "\<not> freshAt syncPeriod e ?wb"
      by (simp add: freshAt_def fresh_def pb gb)
    then show ?thesis
      using idb id(2) ad by (simp add: Update_invoked)
  qed
  from four found inv ret bump show ?thesis by simp
qed

theorem Update_dispatches_unless_fresh_witness:
  "konnectIDOf (allAdapters okAdapter) svcPtr (worldOf svcProgrammed 5) = Some ''abc'' \<and>
   updateAdapter (allAdapters okAdapter) (ptrKind svcPtr) = Some (''updateService'', okAdapter) \<and>
   freshAt 10 svcPtr (worldOf svcProgrammed 5) \<and>
   invoked (snd (Update (allAdapters okAdapter) 10 svcPtr (worldOf svcProgrammed 5))) = [] \<and>
   invoked (snd (Update (allAdapters okAdapter) 10 svcPtr
     ((worldOf svcProgrammed 5)\<lparr>heap := (heap (worldOf svcProgrammed 5))(ptrAddr svcPtr :=
        (entityOf svcPtr (worldOf svcProgrammed 5))\<lparr>objGeneration :=
           objGeneration (entityOf svcPtr (worldOf svcProgrammed 5)) + 1\<rparr>)\<rparr>))) =
     [(''updateService'', svcPtr)]"
proof -
  have i: "konnectIDOf (allAdapters okAdapter) svcPtr (worldOf svcProgrammed 5) = Some ''abc''"
    by (simp add: reading_defs example_defs)
  have n: "''abc'' \<noteq> []" by simp
  have a: "updateAdapter (allAdapters okAdapter) (ptrKind svcPtr) =
      Some (''updateService'', okAdapter)"
    by (simp add: svcPtr_def allAdapters_def)
  have fr: "freshAt 10 svcPtr (worldOf svcProgrammed 5)"
    by (simp add: reading_defs example_defs)
  have inv: "invoked (worldOf svcProgrammed 5) = []"
    by (simp add: worldOf_def)
  show ?thesis
    using Update_dispatches_unless_fresh [OF i n a, of 10] i a fr inv by simp
qed

text \<open>
  The claim as stated fails: for a service without conditions and with an empty Konnect
  ID, \<open>Update\<close> finds no \<open>Programmed\<close> condition and yet calls no adapter; it
  returns the missing-ID error.
\<close>

theorem Update_dispatches_unless_fresh_counterexample:
  "objConditions (entityOf svcPtr (worldOf svcNoID 5)) = [] \<and>
   fst (Update (allAdapters okAdapter) 10 svcPtr (worldOf svcNoID 5)) =
     Return (emptyResult,
       Some (Errorf ''can't update %T %s when it does not have the Konnect ID''
               [APtr KongService (Some svcNoID), AKey (''default'', ''svc'')])) \<and>
   invoked (snd (Update (allAdapters okAdapter) 10 svcPtr (worldOf svcNoID 5))) = []"
  by (simp add: Update_paths ObjectKeyFromObject_def reading_defs example_defs)

section \<open>The requeue hint\<close>

text \<open>
  C5, as the code has it. When \<open>Update\<close> returns early for a fresh entity the hint is
  the sync period minus the time since the last transition, a difference of 64-bit
  durations. Provided this difference does not overflow (it is below \<open>2 ^ 63\<close>
  nanoseconds, as it is whenever the time since the last transition is not negative), the
  hint is not negative. Under the same proviso, a second \<open>Update\<close> after the first, at a
  later reading of the clock at which the entity is still fresh, returns a hint that is
  again not negative and strictly smaller, and no adapter has been invoked by either
  call. The hint is zero exactly when the time since the last transition equals the sync
  period. Whenever \<open>Update\<close> does invoke an adapter, its result is the empty one, with
  hint zero.
\<close>

theorem requeue_hint:
  assumes f1: "freshAt syncPeriod e w"
    and w': "w' = (snd (Update x syncPeriod e w))\<lparr>clock := t\<rparr>"
    and adv: "sint (elapsedOf e w) < sint (elapsedOf e w')"
    and f2: "sint (elapsedOf e w') \<le> sint syncPeriod"
    and fits: "sint syncPeriod - sint (elapsedOf e w) < 2 ^ 63"
    and disp: "invoked (snd (Update x2 syncPeriod2 e2 w2)) \<noteq> invoked w2"
  shows "fst (Update x syncPeriod e w) =
           Return (\<lparr>Requeue = False, RequeueAfter = syncPeriod - elapsedOf e w\<rparr>, None) \<and>
         0 \<le> sint (syncPeriod - elapsedOf e w) \<and>
         fst (Update x syncPeriod e w') =
           Return (\<lparr>Requeue = False, RequeueAfter = syncPeriod - elapsedOf e w'\<rparr>, None) \<and>
         0 \<le> sint (syncPeriod - elapsedOf e w') \<and>
         sint (syncPeriod - elapsedOf e w') < sint (syncPeriod - elapsedOf e w) \<and>
         invoked (snd (Update x syncPeriod e w')) = invoked w \<and>
         (syncPeriod - elapsedOf e w' = 0) = (elapsedOf e w' = syncPeriod) \<and>
         (\<exists>err. fst (Update x2 syncPeriod2 e2 w2) = Return (emptyResult, err)) \<and>
         RequeueAfter emptyResult = 0"
proof -
  have first: "fst (Update x syncPeriod e w) =
      Return (\<lparr>Requeue = False, RequeueAfter = syncPeriod - elapsedOf e w\<rparr>, None)"
    using f1 by (simp add: Update_paths)
  have le1: "sint (elapsedOf e w) \<le> sint syncPeriod"
    using f1 by (simp add: freshAt_def fresh_def)
  have s1: "sint (syncPeriod - elapsedOf e w) = sint syncPeriod - sint (elapsedOf e w)"
    using le1 fits by (intro sint_sub_fits) simp_all
  have s2: "sint (syncPeriod - elapsedOf e w') = sint syncPeriod - sint (elapsedOf e w')"
    using f2 adv fits by (intro sint_sub_fits) simp_all
  have hp: "heap w' = heap w"
    using f1 by (simp add: w' Update_heap)
  have iv: "invoked w' = invoked w"
    using f1 by (simp add: w' Update_invoked)
  have f3: "freshAt syncPeriod e w'"
    using f1 f2 same_heap_readings [OF hp] by (simp add: freshAt_def fresh_def)
  have second: "fst (Update x syncPeriod e w') =
      Return (\<lparr>Requeue = False, RequeueAfter = syncPeriod - elapsedOf e w'\<rparr>, None)"
    using f3 by (simp add: Update_paths)
  have quiet: "invoked (snd (Update x syncPeriod e w')) = invoked w"
    using f3 iv by (simp add: Update_invoked)
  have zero: "(syncPeriod - elapsedOf e w' = 0) = (elapsedOf e w' = syncPeriod)"
    by auto
  have dispatched: "\<exists>err. fst (Update x2 syncPeriod2 e2 w2) = Return (emptyResult, err)"
    using disp
    by (auto simp: Update_invoked Update_paths split: if_splits option.splits)
  show ?thesis
    using first second quiet zero dispatched s1 s2 le1 f2 adv
    by (simp add: emptyResult_def)
qed

theorem requeue_hint_witness:
  "freshAt 10 svcPtr (worldOf svcProgrammed 5) \<and>
   fst (Update (allAdapters okAdapter) 10 svcPtr (worldOf svcProgrammed 5)) =
     Return (\<lparr>Requeue = False, RequeueAfter = 5\<rparr>, None) \<and>
   fst (Update (allAdapters okAdapter) 10 svcPtr
         ((snd (Update (allAdapters okAdapter) 10 svcPtr (worldOf svcProgrammed 5)))
            \<lparr>clock := 10\<rparr>)) =
     Return (\<lparr>Requeue = False, RequeueAfter = 0\<rparr>, None) \<and>
   invoked (snd (Update (allAdapters okAdapter) 10 svcPtr
         ((snd (Update (allAdapters okAdapter) 10 svcPtr (worldOf svcProgrammed 5)))
            \<lparr>clock := 10\<rparr>))) = [] \<and>
   invoked (snd (Update (allAdapters okAdapter) 10 svcPtr (worldOf svcProgrammed 50))) =
     [(''updateService'', svcPtr)] \<and>
   fst (Update (allAdapters okAdapter) 10 svcPtr (worldOf svcProgrammed 50)) =
     Return (emptyResult, None)"
proof -
  let ?x = "allAdapters okAdapter"
  let ?w = "worldOf svcProgrammed 5"
  let ?w' = "(snd (Update ?x 10 svcPtr ?w))\<lparr>clock := 10\<rparr>"
  let ?w2 = "worldOf svcProgrammed 50"
  have f1: "freshAt 10 svcPtr ?w"
    by (simp add: reading_defs example_defs)
  have e1: "elapsedOf svcPtr ?w = 5"
    by (simp add: reading_defs example_defs)
  have e2: "elapsedOf svcPtr ?w' = 10"
    using f1 by (simp add: Update_paths) (simp add: reading_defs example_defs)
  have adv: "sint (elapsedOf svcPtr ?w) < sint (elapsedOf svcPtr ?w')"
    by (simp add: e1 e2)
  have f2: "sint (elapsedOf svcPtr ?w') \<le> sint (10 :: 64 word)"
    by (simp add: e2)
  have fits: "sint (10 :: 64 word) - sint (elapsedOf svcPtr ?w) < 2 ^ 63"
    by (simp add: e1)
  have u2: "Update ?x 10 svcPtr ?w2 =
      (Return (emptyResult, None),
       ?w2\<lparr>logs := [OpComplete UpdateOp 0 KongService ''abc''],
            invoked := [(''updateService'', svcPtr)]\<rparr>)"
    by (simp add: Update_paths invoke_world logOpComplete_def reading_defs example_defs)
  have disp: "invoked (snd (Update ?x 10 svcPtr ?w2)) \<noteq> invoked ?w2"
    by (simp add: u2) (simp add: worldOf_def)
  have inv: "invoked ?w = []"
    by (simp add: worldOf_def)
  show ?thesis
    using requeue_hint [OF f1 refl adv f2 fits disp] f1 e1 e2 u2 inv by simp
qed

text \<open>
  The claim as stated fails: with the greatest sync period and a last transition one
  nanosecond after the reading of the clock, the entity is fresh and the hint wraps
  around to the least duration, which is negative.
\<close>

theorem requeue_hint_counterexample:
  "fst (Update (allAdapters okAdapter) 9223372036854775807 svcPtr (worldOf svcProgrammed (- 1))) =
     Return (\<lparr>Requeue = False, RequeueAfter = 9223372036854775808\<rparr>, None) \<and>
   sint (9223372036854775808 :: 64 word) = - 9223372036854775808"
  by (simp add: Update_paths reading_defs example_defs)

end
